theory Spec2Isabelle
  imports Main "HOL-Library.Sublist"
begin

section \<open>The upgrade-aware proxy handler of pkg/gateway/proxy/dispatcher\<close>

text \<open>
  A shallow embedding of \<^verbatim>\<open>upgradeaware.go\<close>. The handler talks to collaborators
  that live in other packages (the reverse-proxy engine, the embedded upgrade handler of
  apimachinery, the error responder, the endpoint registry, klog). Calls whose result the
  handler never looks at (responder, health-check trigger, log lines) are recorded as
  events of a trace, in call order. Collaborators whose outcome decides what the handler
  does next (the two \<^verbatim>\<open>ServeHTTP\<close> delegates, the predicates on requests and
  errors, the inner round tripper) are parameters.
\<close>

subsection \<open>Strings (package strings)\<close>

definition HasPrefix :: "string \<Rightarrow> string \<Rightarrow> bool" where
  "HasPrefix s p = (length p \<le> length s \<and> take (length p) s = p)"

definition HasSuffix :: "string \<Rightarrow> string \<Rightarrow> bool" where
  "HasSuffix s suf = (length suf \<le> length s \<and> drop (length s - length suf) s = suf)"

definition TrimSuffix :: "string \<Rightarrow> string \<Rightarrow> string" where
  "TrimSuffix s suf = (if HasSuffix s suf then take (length s - length suf) s else s)"

fun Contains :: "string \<Rightarrow> string \<Rightarrow> bool" where
  "Contains [] sub = (sub = [])"
| "Contains (c # cs) sub = (HasPrefix (c # cs) sub \<or> Contains cs sub)"

subsection \<open>Errors (package errors)\<close>

text \<open>
  A non-nil value of Go's interface \<^verbatim>\<open>error\<close>: \<open>err_id\<close> stands for the identity
  of the value (what \<^verbatim>\<open>==\<close> on two interface values compares), \<open>Error\<close> is the
  text of its \<^verbatim>\<open>Error()\<close> method, \<open>Is_targets\<close> lists the identities for which
  the value's own \<^verbatim>\<open>Is(target)\<close> method answers true (empty when the type has no
  such method), and \<open>Unwrap\<close> is the result of its \<^verbatim>\<open>Unwrap()\<close> method
  (\<open>None\<close> when the type has none or it returns nil). A Go \<^verbatim>\<open>error\<close> that may
  be nil is a \<open>go_error option\<close>.
\<close>

datatype go_error =
  GoError (err_id: nat) (Error: string) (Is_targets: "nat list") (Unwrap: "go_error option")

text \<open>\<^verbatim>\<open>http.ErrAbortHandler\<close> and \<^verbatim>\<open>context.Canceled\<close>: two sentinels made by
  \<^verbatim>\<open>errors.New\<close>, without \<^verbatim>\<open>Is\<close> or \<^verbatim>\<open>Unwrap\<close> methods.\<close>

definition ErrAbortHandler :: go_error where
  "ErrAbortHandler = GoError 1 ''net/http: abort Handler'' [] None"

definition Canceled :: go_error where
  "Canceled = GoError 2 ''context canceled'' [] None"

text \<open>The loop of \<^verbatim>\<open>errors.Is\<close> on a non-nil error and a non-nil comparable target:
  equal values, or the error's own \<^verbatim>\<open>Is\<close> method, or the same for what it wraps.\<close>

fun is_chain :: "go_error \<Rightarrow> go_error \<Rightarrow> bool" where
  "is_chain (GoError i m ts None) target =
     (GoError i m ts None = target \<or> err_id target \<in> set ts)"
| "is_chain (GoError i m ts (Some e)) target =
     (GoError i m ts (Some e) = target \<or> err_id target \<in> set ts \<or> is_chain e target)"

definition errors_Is :: "go_error option \<Rightarrow> go_error \<Rightarrow> bool" where
  "errors_Is err target = (case err of None \<Rightarrow> False | Some e \<Rightarrow> is_chain e target)"

definition errors_Unwrap :: "go_error option \<Rightarrow> go_error option" where
  "errors_Unwrap err = (case err of None \<Rightarrow> None | Some e \<Rightarrow> Unwrap e)"

text \<open>\<^verbatim>\<open>apierrors.NewBadRequest(reason)\<close>: a status error whose text is the reason.\<close>

definition NewBadRequest :: "string \<Rightarrow> go_error" where
  "NewBadRequest reason = GoError 3 reason [] None"

subsection \<open>Requests, responses, the handler\<close>

type_synonym Header = "string \<rightharpoonup> string list"

text \<open>\<^verbatim>\<open>Header.Set\<close> and \<^verbatim>\<open>Header.Del\<close> act on the canonical form of the key;
  every key this file passes (Location, Connection, the four Access-Control-Allow
  keys) is in canonical form already.\<close>

definition Header_Set :: "string \<Rightarrow> string \<Rightarrow> Header \<Rightarrow> Header" where
  "Header_Set k v hdr = hdr(k \<mapsto> [v])"

definition Header_Del :: "string \<Rightarrow> Header \<Rightarrow> Header" where
  "Header_Del k hdr = hdr(k := None)"

record URL =
  Scheme :: string
  Host :: string
  Path :: string
  RawQuery :: string

record Request =
  Method :: string
  url :: URL
  header :: Header

record Response =
  StatusCode :: nat
  resp_header :: Header

text \<open>The \<^verbatim>\<open>http.ResponseWriter\<close> as the handler uses it: the header map behind
  \<^verbatim>\<open>w.Header()\<close> and the status codes passed to \<^verbatim>\<open>w.WriteHeader\<close>, in order.\<close>

record ResponseWriter =
  w_header :: Header
  WriteHeader_calls :: "nat list"

text \<open>Round trippers: a transport of the caller's (opaque, named by a number), the
  \<^verbatim>\<open>proxy.Transport\<close> of apimachinery with its fields Scheme, Host, PathPrepend and
  RoundTripper, and the \<^verbatim>\<open>corsRemovingTransport\<close> of this file around another.\<close>

datatype RoundTripper =
    CallerTransport nat
  | ProxyTransport string string string "RoundTripper option"
  | CorsRemovingTransport RoundTripper

record UpgradeAwareHandler =
  UpgradeRequired :: bool
  Location :: URL
  Transport :: "RoundTripper option"
  WrapTransport :: bool
  UseRequestLocation :: bool
  FlushInterval :: int
  Responder :: "nat option"

text \<open>The reverse proxy built in \<^verbatim>\<open>ServeHTTP\<close>: the target given to
  \<^verbatim>\<open>NewSingleHostReverseProxy\<close> (scheme and host only) and the fields set
  afterwards; \<open>proxy_ErrorHandler\<close> says whether \<^verbatim>\<open>h.ErrorHandler\<close> was wired.\<close>

record ReverseProxy =
  target_Scheme :: string
  target_Host :: string
  proxy_Transport :: "RoundTripper option"
  proxy_FlushInterval :: int
  proxy_ErrorHandler :: bool

datatype log_level = ErrorLevel | V nat

datatype event =
    Klog log_level
  | TriggerHealthCheck
  | ResponderError Header Request "go_error option"
  | UpgradeServeHTTP Request
  | ProxyServeHTTP ReverseProxy Request

text \<open>What one call can touch: the handler (its Transport field is assigned in
  \<^verbatim>\<open>ServeHTTP\<close>), the response writer, and the trace of collaborator calls.
  \<open>ResponderError hdr req err\<close> records \<^verbatim>\<open>h.Responder.Error(w, req, err)\<close> with
  the header map of \<^verbatim>\<open>w\<close> as it is at the call; \<open>UpgradeServeHTTP\<close> and
  \<open>ProxyServeHTTP\<close> record the two delegations of \<^verbatim>\<open>ServeHTTP\<close>.\<close>

record world =
  handler :: UpgradeAwareHandler
  writer :: ResponseWriter
  trace :: "event list"

text \<open>The value a panic carries: a run-time nil dereference, any other non-nil value,
  or the nil of \<^verbatim>\<open>panic(nil)\<close>. \<^verbatim>\<open>recover()\<close>, called by a deferred function while
  the goroutine panics, stops the panic and returns that value: for \<^verbatim>\<open>panic(nil)\<close> it
  returns nil (Go before 1.21), which is also what it returns when nothing panics.\<close>

datatype panic_value = NilDereference | PanicValue nat | PanicNil

definition recover :: "panic_value \<Rightarrow> panic_value option" where
  "recover v = (if v = PanicNil then None else Some v)"

text \<open>A call either returns or panics; what it did before panicking stays done.\<close>

datatype 'a outcome = Returned 'a | Panicked panic_value 'a

definition emit :: "event \<Rightarrow> world \<Rightarrow> world" where
  "emit e s = s\<lparr>trace := trace s @ [e]\<rparr>"

definition set_header :: "string \<Rightarrow> string \<Rightarrow> world \<Rightarrow> world" where
  "set_header k v s = s\<lparr>writer := (writer s)\<lparr>w_header := Header_Set k v (w_header (writer s))\<rparr>\<rparr>"

definition WriteHeader :: "nat \<Rightarrow> world \<Rightarrow> world" where
  "WriteHeader code s =
     s\<lparr>writer := (writer s)\<lparr>WriteHeader_calls := WriteHeader_calls (writer s) @ [code]\<rparr>\<rparr>"

text \<open>\<^verbatim>\<open>h.Responder.Error(w, req, err)\<close>: a method call on an interface value that is
  nil when no responder was supplied.\<close>

definition Responder_Error :: "Request \<Rightarrow> go_error option \<Rightarrow> world \<Rightarrow> world outcome" where
  "Responder_Error req err s =
     (case Responder (handler s) of
        None \<Rightarrow> Panicked NilDereference s
      | Some r \<Rightarrow> Returned (emit (ResponderError (w_header (writer s)) req err) s))"

subsection \<open>ErrorHandler\<close>

text \<open>\<open>IsConnectionRefused\<close> is \<^verbatim>\<open>utilnet.IsConnectionRefused\<close> of apimachinery,
  a parameter. Lines 126-129: the log line and the health check of a refused connection.\<close>

definition refused_check :: "(go_error option \<Rightarrow> bool) \<Rightarrow> go_error option \<Rightarrow> world \<Rightarrow> world" where
  "refused_check IsConnectionRefused err s =
     (if IsConnectionRefused err then emit TriggerHealthCheck (emit (Klog ErrorLevel) s) else s)"

text \<open>\<^verbatim>\<open>ErrorHandler\<close> (lines 125-147). In the abort branch the unwrapped error
  replaces \<^verbatim>\<open>err\<close>; when it is nil, \<^verbatim>\<open>errors.Is(nil, context.Canceled)\<close> is false
  and the next expression of the case calls \<^verbatim>\<open>Error()\<close> on the nil interface.\<close>

definition ErrorHandler ::
  "(go_error option \<Rightarrow> bool) \<Rightarrow> Request \<Rightarrow> go_error option \<Rightarrow> world \<Rightarrow> world outcome" where
  "ErrorHandler IsConnectionRefused req err s =
     (let s1 = refused_check IsConnectionRefused err s
      in if errors_Is err ErrAbortHandler then
           (case errors_Unwrap err of
              None \<Rightarrow> Panicked NilDereference s1
            | Some r \<Rightarrow>
                if is_chain r Canceled \<or> Contains (Error r) ''client disconnected''
                then Returned (emit (Klog (V 5)) s1)
                else if Contains (Error r) ''http2: server sent GOAWAY and closed the connection''
                then Responder_Error req (Some r)
                       (set_header ''Connection'' ''close'' (emit (Klog (V 4)) s1))
                else Responder_Error req (Some r) (emit (Klog ErrorLevel) s1))
         else Responder_Error req err s1)"

subsection \<open>The transports\<close>

text \<open>\<^verbatim>\<open>defaultProxyTransport\<close> (lines 162-179).\<close>

definition defaultProxyTransport ::
  "UpgradeAwareHandler \<Rightarrow> URL \<Rightarrow> RoundTripper option \<Rightarrow> RoundTripper" where
  "defaultProxyTransport h u internalTransport =
     (let suffix = Path (Location h);
          suffix' = (if HasSuffix (Path u) ''/'' \<and> \<not> HasSuffix suffix ''/''
                     then suffix @ ''/'' else suffix);
          pathPrepend = TrimSuffix (Path u) suffix'
      in CorsRemovingTransport
           (ProxyTransport (Scheme u) (Host u) pathPrepend internalTransport))"

text \<open>\<^verbatim>\<open>removeCORSHeaders\<close> (lines 205-210) and \<^verbatim>\<open>corsRemovingTransport.RoundTrip\<close>
  (lines 190-197). The inner round tripper is a parameter; it answers with Go's pair of a
  response pointer and an error, either of which may be nil. With both nil,
  \<^verbatim>\<open>resp.Header\<close> dereferences a nil pointer.\<close>

definition removeCORSHeaders :: "Response \<Rightarrow> Response" where
  "removeCORSHeaders resp =
     resp\<lparr>resp_header :=
       Header_Del ''Access-Control-Allow-Origin''
         (Header_Del ''Access-Control-Allow-Methods''
           (Header_Del ''Access-Control-Allow-Headers''
             (Header_Del ''Access-Control-Allow-Credentials'' (resp_header resp))))\<rparr>"

definition RoundTrip ::
  "(Request \<Rightarrow> Response option \<times> go_error option) \<Rightarrow> Request
     \<Rightarrow> panic_value + (Response option \<times> go_error option)" where
  "RoundTrip inner req =
     (case inner req of
        (resp, err) \<Rightarrow>
          (case err of
             Some e \<Rightarrow> Inr (None, Some e)
           | None \<Rightarrow>
               (case resp of
                  None \<Rightarrow> Inl NilDereference
                | Some rp \<Rightarrow> Inr (Some (removeCORSHeaders rp), None))))"

subsection \<open>ServeHTTP\<close>

text \<open>Lines 68-75: the copy of the backend location with the request's query and the
  trailing slash of the request path.\<close>

definition destination :: "UpgradeAwareHandler \<Rightarrow> Request \<Rightarrow> URL" where
  "destination h req =
     (let loc = (Location h)\<lparr>RawQuery := RawQuery (url req)\<rparr>
      in if \<not> HasSuffix (Path loc) ''/'' \<and> HasSuffix (Path (url req)) ''/''
         then loc\<lparr>Path := Path loc @ ''/''\<rparr> else loc)"

text \<open>Lines 82-88: the redirect of a request whose destination path is empty.\<close>

definition redirect :: "Request \<Rightarrow> world \<Rightarrow> world" where
  "redirect req s =
     (let queryPart = (if length (RawQuery (url req)) > 0 then ''?'' @ RawQuery (url req)
                       else [])
      in WriteHeader 301 (set_header ''Location'' (Path (url req) @ ''/'' @ queryPart) s))"

text \<open>Lines 91-93: the handler's transport is built, or wrapped, and stored.\<close>

definition with_transport :: "Request \<Rightarrow> world \<Rightarrow> world" where
  "with_transport req s =
     (let h = handler s
      in if Transport h = None \<or> WrapTransport h
         then s\<lparr>handler := h\<lparr>Transport := Some (defaultProxyTransport h (url req) (Transport h))\<rparr>\<rparr>
         else s)"

text \<open>Lines 96-100: the shallow clone with its own copy of the headers
  (\<^verbatim>\<open>utilnet.CloneHeader\<close>), sent to the destination unless the request's own
  location is to be used.\<close>

definition newReq :: "UpgradeAwareHandler \<Rightarrow> Request \<Rightarrow> Request" where
  "newReq h req =
     (if \<not> UseRequestLocation h then req\<lparr>url := destination h req\<rparr> else req)"

text \<open>Lines 110-120: the reverse proxy for the location's scheme and host.\<close>

definition newProxy :: "UpgradeAwareHandler \<Rightarrow> ReverseProxy" where
  "newProxy h =
     \<lparr>target_Scheme = Scheme (Location h), target_Host = Host (Location h),
      proxy_Transport = Transport h, proxy_FlushInterval = FlushInterval h,
      proxy_ErrorHandler = (Responder h \<noteq> None)\<rparr>"

text \<open>\<^verbatim>\<open>ServeHTTP\<close> (lines 57-123). The parameters: \<open>IsUpgradeRequest\<close> is
  \<^verbatim>\<open>httpstream.IsUpgradeRequest\<close>, \<open>upgrade_ServeHTTP\<close> the \<^verbatim>\<open>ServeHTTP\<close> of the
  embedded handler of apimachinery, \<open>proxy_ServeHTTP\<close> the \<^verbatim>\<open>ServeHTTP\<close> of the
  reverse proxy of pkg/gateway/httputil. The deferred function of lines 102-108 sees a
  panic of the reverse proxy only. Its call of \<^verbatim>\<open>recover()\<close> ends the panic, so the
  call returns; the log line and the header are behind the test \<^verbatim>\<open>r != nil\<close> of
  line 103.\<close>

definition ServeHTTP ::
  "(Request \<Rightarrow> bool) \<Rightarrow> (Request \<Rightarrow> world \<Rightarrow> world outcome)
     \<Rightarrow> (ReverseProxy \<Rightarrow> Request \<Rightarrow> world \<Rightarrow> world outcome)
     \<Rightarrow> Request \<Rightarrow> world \<Rightarrow> world outcome" where
  "ServeHTTP IsUpgradeRequest upgrade_ServeHTTP proxy_ServeHTTP req s =
     (if IsUpgradeRequest req then upgrade_ServeHTTP req (emit (UpgradeServeHTTP req) s)
      else if UpgradeRequired (handler s)
      then Responder_Error req (Some (NewBadRequest ''Upgrade request required'')) s
      else if length (Path (destination (handler s) req)) = 0 then Returned (redirect req s)
      else
        (let s1 = with_transport req s;
             r = newReq (handler s1) req;
             p = newProxy (handler s1)
         in case proxy_ServeHTTP p r (emit (ProxyServeHTTP p r) s1) of
              Returned s2 \<Rightarrow> Returned s2
            | Panicked v s2 \<Rightarrow>
                (case recover v of
                   None \<Rightarrow> Returned s2
                 | Some r \<Rightarrow>
                     Returned (set_header ''Connection'' ''close'' (emit (Klog ErrorLevel) s2)))))"

subsection \<open>Reading an outcome\<close>

fun final :: "'a outcome \<Rightarrow> 'a" where
  "final (Returned s) = s"
| "final (Panicked v s) = s"

fun returned :: "'a outcome \<Rightarrow> bool" where
  "returned (Returned s) = True"
| "returned (Panicked v s) = False"

text \<open>The errors handed to the responder, in call order.\<close>

fun responder_errors :: "event list \<Rightarrow> go_error option list" where
  "responder_errors [] = []"
| "responder_errors (ResponderError hdr req err # es) = err # responder_errors es"
| "responder_errors (Klog l # es) = responder_errors es"
| "responder_errors (TriggerHealthCheck # es) = responder_errors es"
| "responder_errors (UpgradeServeHTTP req # es) = responder_errors es"
| "responder_errors (ProxyServeHTTP p req # es) = responder_errors es"

definition health_checks :: "event list \<Rightarrow> nat" where
  "health_checks es = count_list es TriggerHealthCheck"

subsection \<open>Sample values\<close>

text \<open>An abort signal around a root cause: an error whose \<^verbatim>\<open>Is\<close> method answers
  true for \<^verbatim>\<open>http.ErrAbortHandler\<close> and whose \<^verbatim>\<open>Unwrap\<close> gives the cause.\<close>

definition abort_of :: "go_error \<Rightarrow> go_error" where
  "abort_of cause =
     GoError 10 (''net/http: abort Handler: '' @ Error cause) [err_id ErrAbortHandler] (Some cause)"

definition goaway :: go_error where
  "goaway =
     GoError 11 ''http2: server sent GOAWAY and closed the connection; LastStreamID=1'' [] None"

definition client_gone :: go_error where
  "client_gone = GoError 12 ''http: client disconnected'' [] None"

definition refused :: go_error where
  "refused = GoError 13 ''dial tcp 10.0.0.1:6443: connect: connection refused'' [] None"

definition goaway_short :: go_error where
  "goaway_short = GoError 14 ''server sent GOAWAY and closed the connection'' [] None"

definition goaway_gone :: go_error where
  "goaway_gone =
     GoError 15
       ''client disconnected; http2: server sent GOAWAY and closed the connection'' [] None"

definition reset :: go_error where
  "reset = GoError 16 ''read tcp 10.0.0.1:6443: connection reset by peer'' [] None"

definition sample_handler :: UpgradeAwareHandler where
  "sample_handler =
     \<lparr>UpgradeRequired = False,
      Location = \<lparr>Scheme = ''https'', Host = ''10.0.0.1:6443'', Path = [], RawQuery = []\<rparr>,
      Transport = None, WrapTransport = False, UseRequestLocation = False,
      FlushInterval = 0, Responder = Some 0\<rparr>"

definition sample_request :: Request where
  "sample_request =
     \<lparr>Method = ''GET'',
      url = \<lparr>Scheme = ''https'', Host = ''gateway'', Path = ''/api'', RawQuery = ''watch=1''\<rparr>,
      header = Map.empty\<rparr>"

definition sample_world :: world where
  "sample_world =
     \<lparr>handler = sample_handler, writer = \<lparr>w_header = Map.empty, WriteHeader_calls = []\<rparr>,
      trace = []\<rparr>"

text \<open>A stand-in for \<^verbatim>\<open>httpstream.IsUpgradeRequest\<close> in examples: the request carries
  \<^verbatim>\<open>Connection: Upgrade\<close>.\<close>

definition connection_upgrade :: "Request \<Rightarrow> bool" where
  "connection_upgrade req =
     (case header req ''Connection'' of None \<Rightarrow> False | Some vs \<Rightarrow> ''Upgrade'' \<in> set vs)"

definition upgrade_request :: Request where
  "upgrade_request =
     sample_request\<lparr>header := [''Connection'' \<mapsto> [''Upgrade''], ''Upgrade'' \<mapsto> [''SPDY/3.1'']]\<rparr>"

definition upgrade_only_world :: world where
  "upgrade_only_world = sample_world\<lparr>handler := sample_handler\<lparr>UpgradeRequired := True\<rparr>\<rparr>"

definition backend_world :: world where
  "backend_world =
     sample_world\<lparr>handler := sample_handler\<lparr>Location :=
       \<lparr>Scheme = ''https'', Host = ''10.0.0.1:6443'', Path = ''/api/v1'', RawQuery = []\<rparr>\<rparr>\<rparr>"

definition sample_response :: Response where
  "sample_response =
     \<lparr>StatusCode = 200,
      resp_header =
        [''Content-Type'' \<mapsto> [''application/json''],
         ''Access-Control-Allow-Origin'' \<mapsto> [''*''],
         ''Access-Control-Allow-Credentials'' \<mapsto> [''true''],
         ''Access-Control-Allow-Headers'' \<mapsto> [''Authorization''],
         ''Access-Control-Allow-Methods'' \<mapsto> [''GET'']]\<rparr>"

section \<open>Properties\<close>

subsection \<open>The string functions\<close>

text \<open>\<^verbatim>\<open>strings.HasPrefix\<close> and \<^verbatim>\<open>strings.Contains\<close> are the prefix and the
  contiguous-sublist relations on byte strings.\<close>

lemma HasPrefix_iff_prefix: "HasPrefix s p \<longleftrightarrow> prefix p s"
proof
  assume "HasPrefix s p"
  then have "s = p @ drop (length p) s"
    unfolding HasPrefix_def by (metis append_take_drop_id)
  then show "prefix p s"
    by (rule prefixI)
next
  assume "prefix p s"
  then obtain t where "s = p @ t" by (auto simp: prefix_def)
  then show "HasPrefix s p"
    by (simp add: HasPrefix_def)
qed

lemma Contains_iff_sublist: "Contains s sub \<longleftrightarrow> sublist sub s"
  by (induction s) (simp_all add: HasPrefix_iff_prefix sublist_Cons_right)

subsection \<open>Reading the world after a step\<close>

lemma trace_emit [simp]: "trace (emit e s) = trace s @ [e]"
  by (simp add: emit_def)

lemma writer_emit [simp]: "writer (emit e s) = writer s"
  by (simp add: emit_def)

lemma handler_emit [simp]: "handler (emit e s) = handler s"
  by (simp add: emit_def)

lemma trace_set_header [simp]: "trace (set_header k v s) = trace s"
  by (simp add: set_header_def)

lemma handler_set_header [simp]: "handler (set_header k v s) = handler s"
  by (simp add: set_header_def)

lemma w_header_set_header [simp]:
  "w_header (writer (set_header k v s)) = Header_Set k v (w_header (writer s))"
  by (simp add: set_header_def)

lemma calls_set_header [simp]:
  "WriteHeader_calls (writer (set_header k v s)) = WriteHeader_calls (writer s)"
  by (simp add: set_header_def)

lemma responder_errors_append [simp]:
  "responder_errors (xs @ ys) = responder_errors xs @ responder_errors ys"
  by (induction xs rule: responder_errors.induct) simp_all

lemma health_checks_append [simp]:
  "health_checks (xs @ ys) = health_checks xs + health_checks ys"
  by (induction xs) (simp_all add: health_checks_def)

lemma health_checks_simps [simp]:
  "health_checks [] = 0"
  "health_checks (TriggerHealthCheck # es) = Suc (health_checks es)"
  "health_checks (Klog l # es) = health_checks es"
  "health_checks (ResponderError hdr req err # es) = health_checks es"
  "health_checks (UpgradeServeHTTP req # es) = health_checks es"
  "health_checks (ProxyServeHTTP p req # es) = health_checks es"
  by (simp_all add: health_checks_def)

lemma trace_refused_check:
  "trace (refused_check c err s) =
     trace s @ (if c err then [Klog ErrorLevel, TriggerHealthCheck] else [])"
  by (simp add: refused_check_def)

lemma writer_refused_check [simp]: "writer (refused_check c err s) = writer s"
  by (simp add: refused_check_def)

lemma handler_refused_check [simp]: "handler (refused_check c err s) = handler s"
  by (simp add: refused_check_def)

lemma Unwrap_differs: "Unwrap e = Some r \<Longrightarrow> r \<noteq> e"
proof
  assume u: "Unwrap e = Some r" and eq: "r = e"
  have "size r < size e"
    using u by (cases e) simp
  with eq show False by simp
qed

lemma Responder_Error_supplied:
  "Responder (handler s) = Some rp \<Longrightarrow>
     Responder_Error req err s = Returned (emit (ResponderError (w_header (writer s)) req err) s)"
  by (simp add: Responder_Error_def)

lemma ErrorHandler_not_abort:
  "\<not> errors_Is err ErrAbortHandler \<Longrightarrow>
     ErrorHandler c req err s = Responder_Error req err (refused_check c err s)"
  by (simp add: ErrorHandler_def)

lemma ErrorHandler_nil_cause:
  "errors_Is err ErrAbortHandler \<Longrightarrow> errors_Unwrap err = None \<Longrightarrow>
     ErrorHandler c req err s = Panicked NilDereference (refused_check c err s)"
  by (simp add: ErrorHandler_def)

lemma ErrorHandler_suppress:
  "errors_Is err ErrAbortHandler \<Longrightarrow> errors_Unwrap err = Some r \<Longrightarrow>
   is_chain r Canceled \<or> Contains (Error r) ''client disconnected'' \<Longrightarrow>
     ErrorHandler c req err s = Returned (emit (Klog (V 5)) (refused_check c err s))"
  by (simp add: ErrorHandler_def)

lemma ErrorHandler_goaway:
  "errors_Is err ErrAbortHandler \<Longrightarrow> errors_Unwrap err = Some r \<Longrightarrow>
   \<not> is_chain r Canceled \<Longrightarrow> \<not> Contains (Error r) ''client disconnected'' \<Longrightarrow>
   Contains (Error r) ''http2: server sent GOAWAY and closed the connection'' \<Longrightarrow>
     ErrorHandler c req err s =
       Responder_Error req (Some r)
         (set_header ''Connection'' ''close'' (emit (Klog (V 4)) (refused_check c err s)))"
  by (simp add: ErrorHandler_def)

lemma ErrorHandler_other_abort:
  "errors_Is err ErrAbortHandler \<Longrightarrow> errors_Unwrap err = Some r \<Longrightarrow>
   \<not> is_chain r Canceled \<Longrightarrow> \<not> Contains (Error r) ''client disconnected'' \<Longrightarrow>
   \<not> Contains (Error r) ''http2: server sent GOAWAY and closed the connection'' \<Longrightarrow>
     ErrorHandler c req err s =
       Responder_Error req (Some r) (emit (Klog ErrorLevel) (refused_check c err s))"
  by (simp add: ErrorHandler_def)

lemma final_Responder_Error [simp]:
  "handler (final (Responder_Error req err s)) = handler s"
  "writer (final (Responder_Error req err s)) = writer s"
  by (simp_all add: Responder_Error_def split: option.splits)

lemma health_checks_Responder_Error [simp]:
  "health_checks (trace (final (Responder_Error req err s))) = health_checks (trace s)"
  by (simp add: Responder_Error_def split: option.splits)


subsection \<open>The error classifier\<close>

lemma abort_of_is_abort: "errors_Is (Some (abort_of cause)) ErrAbortHandler"
  by (simp add: errors_Is_def abort_of_def ErrAbortHandler_def)

lemma Unwrap_abort_of: "Unwrap (abort_of cause) = Some cause"
  by (simp add: abort_of_def)

lemma errors_Unwrap_abort_of: "errors_Unwrap (Some (abort_of cause)) = Some cause"
  by (simp add: errors_Unwrap_def abort_of_def)

lemma errors_Unwrap_Some [simp]: "errors_Unwrap (Some e) = Unwrap e"
  by (simp add: errors_Unwrap_def)

lemma responder_errors_Responder_Error:
  "Responder (handler s) = Some rp \<Longrightarrow>
     responder_errors (trace (final (Responder_Error req err s))) =
       responder_errors (trace s) @ [err]"
  by (simp add: Responder_Error_def)

lemma returned_Responder_Error:
  "Responder (handler s) = Some rp \<Longrightarrow> returned (Responder_Error req err s)"
  by (simp add: Responder_Error_def)

lemma responder_errors_refused_check [simp]:
  "responder_errors (trace (refused_check c err s)) = responder_errors (trace s)"
  by (simp add: trace_refused_check)





text \<open>
  C2. An abort signal (\<^verbatim>\<open>errors.Is(err, http.ErrAbortHandler)\<close>) around a root cause
  that is \<^verbatim>\<open>context.Canceled\<close> or whose text contains "client disconnected" is
  suppressed: the call returns after one log line at verbosity 5, the responder is not
  called, the response writer is as it was, and the branch triggers no health check (the
  only one is that of a refused connection, made before the classification).
\<close>

theorem benign_abort_suppressed:
  assumes "errors_Is (Some e) ErrAbortHandler"
      and "Unwrap e = Some r"
      and "is_chain r Canceled \<or> Contains (Error r) ''client disconnected''"
  shows "ErrorHandler IsConnectionRefused req (Some e) s =
           Returned (emit (Klog (V 5)) (refused_check IsConnectionRefused (Some e) s))
       \<and> responder_errors (trace (final (ErrorHandler IsConnectionRefused req (Some e) s))) =
           responder_errors (trace s)
       \<and> health_checks (trace (final (ErrorHandler IsConnectionRefused req (Some e) s))) =
           health_checks (trace s) + (if IsConnectionRefused (Some e) then 1 else 0)
       \<and> writer (final (ErrorHandler IsConnectionRefused req (Some e) s)) = writer s"
proof -
  have eq: "ErrorHandler IsConnectionRefused req (Some e) s =
              Returned (emit (Klog (V 5)) (refused_check IsConnectionRefused (Some e) s))"
    using assms by (intro ErrorHandler_suppress) simp_all
  show ?thesis
    by (simp add: eq) (simp add: trace_refused_check)
qed

theorem benign_abort_suppressed_witness:
  "errors_Is (Some (abort_of Canceled)) ErrAbortHandler
   \<and> Unwrap (abort_of Canceled) = Some Canceled
   \<and> (is_chain Canceled Canceled \<or> Contains (Error Canceled) ''client disconnected'')
   \<and> ErrorHandler (\<lambda>e. False) sample_request (Some (abort_of Canceled)) sample_world =
       Returned (sample_world\<lparr>trace := [Klog (V 5)]\<rparr>)
   \<and> errors_Is (Some (abort_of client_gone)) ErrAbortHandler
   \<and> Unwrap (abort_of client_gone) = Some client_gone
   \<and> (is_chain client_gone Canceled \<or> Contains (Error client_gone) ''client disconnected'')
   \<and> ErrorHandler (\<lambda>e. False) sample_request (Some (abort_of client_gone)) sample_world =
       Returned (sample_world\<lparr>trace := [Klog (V 5)]\<rparr>)"
proof -
  have c: "is_chain Canceled Canceled \<or> Contains (Error Canceled) ''client disconnected''"
    by (simp add: Canceled_def)
  have g: "is_chain client_gone Canceled \<or> Contains (Error client_gone) ''client disconnected''"
    by (simp add: client_gone_def HasPrefix_def)
  have e0: "emit (Klog (V 5)) (refused_check (\<lambda>e. False) err sample_world) =
            sample_world\<lparr>trace := [Klog (V 5)]\<rparr>" for err
    by (simp add: emit_def refused_check_def sample_world_def)
  note t1 = benign_abort_suppressed [OF abort_of_is_abort Unwrap_abort_of c,
      of "\<lambda>e. False" sample_request sample_world]
  note t2 = benign_abort_suppressed [OF abort_of_is_abort Unwrap_abort_of g,
      of "\<lambda>e. False" sample_request sample_world]
  from t1 e0 have r1:
    "ErrorHandler (\<lambda>e. False) sample_request (Some (abort_of Canceled)) sample_world =
       Returned (sample_world\<lparr>trace := [Klog (V 5)]\<rparr>)"
    by simp
  from t2 e0 have r2:
    "ErrorHandler (\<lambda>e. False) sample_request (Some (abort_of client_gone)) sample_world =
       Returned (sample_world\<lparr>trace := [Klog (V 5)]\<rparr>)"
    by simp
  from abort_of_is_abort Unwrap_abort_of c g r1 r2 show ?thesis
    by (intro conjI)
qed

text \<open>
  C3, as amended. An abort signal around a root cause whose text contains
  "http2: server sent GOAWAY and closed the connection", and which is neither
  \<^verbatim>\<open>context.Canceled\<close> nor a text with "client disconnected", makes the handler set
  \<^verbatim>\<open>Connection: close\<close> on the response and then call the supplied responder exactly
  once, with the unwrapped root cause; the responder sees the header already set.
\<close>

theorem goaway_marks_closed_then_forwards:
  assumes "errors_Is (Some e) ErrAbortHandler"
      and "Unwrap e = Some r"
      and "\<not> is_chain r Canceled"
      and "\<not> Contains (Error r) ''client disconnected''"
      and "Contains (Error r) ''http2: server sent GOAWAY and closed the connection''"
      and "Responder (handler s) = Some rp"
  shows "ErrorHandler IsConnectionRefused req (Some e) s =
           Returned
             (emit (ResponderError (Header_Set ''Connection'' ''close'' (w_header (writer s)))
                      req (Some r))
               (set_header ''Connection'' ''close''
                 (emit (Klog (V 4)) (refused_check IsConnectionRefused (Some e) s))))
       \<and> w_header (writer (final (ErrorHandler IsConnectionRefused req (Some e) s))) ''Connection'' =
           Some [''close'']
       \<and> responder_errors (trace (final (ErrorHandler IsConnectionRefused req (Some e) s))) =
           responder_errors (trace s) @ [Some r]"
proof -
  let ?s2 = "set_header ''Connection'' ''close''
               (emit (Klog (V 4)) (refused_check IsConnectionRefused (Some e) s))"
  have rp: "Responder (handler ?s2) = Some rp"
    using assms(6) by simp
  have "ErrorHandler IsConnectionRefused req (Some e) s = Responder_Error req (Some r) ?s2"
    using assms(1-5) by (intro ErrorHandler_goaway) simp_all
  also have "\<dots> = Returned (emit (ResponderError (w_header (writer ?s2)) req (Some r)) ?s2)"
    by (rule Responder_Error_supplied [OF rp])
  finally have eq: "ErrorHandler IsConnectionRefused req (Some e) s =
      Returned (emit (ResponderError (w_header (writer ?s2)) req (Some r)) ?s2)" .
  show ?thesis
    by (simp add: eq) (simp add: Header_Set_def)
qed

theorem goaway_marks_closed_then_forwards_witness:
  "errors_Is (Some (abort_of goaway)) ErrAbortHandler
   \<and> Unwrap (abort_of goaway) = Some goaway
   \<and> \<not> is_chain goaway Canceled
   \<and> \<not> Contains (Error goaway) ''client disconnected''
   \<and> Contains (Error goaway) ''http2: server sent GOAWAY and closed the connection''
   \<and> Responder (handler sample_world) = Some 0
   \<and> w_header (writer (final (ErrorHandler (\<lambda>e. False) sample_request (Some (abort_of goaway))
        sample_world))) ''Connection'' = Some [''close'']
   \<and> responder_errors (trace (final (ErrorHandler (\<lambda>e. False) sample_request
        (Some (abort_of goaway)) sample_world))) = [Some goaway]"
proof -
  have a: "\<not> is_chain goaway Canceled"
    by (simp add: goaway_def Canceled_def)
  have b: "\<not> Contains (Error goaway) ''client disconnected''"
    by (simp add: goaway_def HasPrefix_def)
  have c: "Contains (Error goaway) ''http2: server sent GOAWAY and closed the connection''"
    by (simp add: goaway_def HasPrefix_def)
  have d: "Responder (handler sample_world) = Some 0"
    by (simp add: sample_world_def sample_handler_def)
  have t0: "responder_errors (trace sample_world) = []"
    by (simp add: sample_world_def)
  note t = goaway_marks_closed_then_forwards [OF abort_of_is_abort Unwrap_abort_of a b c d,
      of "\<lambda>e. False" sample_request]
  from t have h1: "w_header (writer (final (ErrorHandler (\<lambda>e. False) sample_request
        (Some (abort_of goaway)) sample_world))) ''Connection'' = Some [''close'']"
    by blast
  from t t0 have h2: "responder_errors (trace (final (ErrorHandler (\<lambda>e. False) sample_request
        (Some (abort_of goaway)) sample_world))) = [Some goaway]"
    by simp
  from abort_of_is_abort Unwrap_abort_of a b c d h1 h2 show ?thesis
    by (intro conjI)
qed

text \<open>
  The claim as first stated fails twice. A root cause with the text "server sent GOAWAY
  and closed the connection" but without the prefix "http2: " takes the default branch:
  no header is set. A root cause that also contains "client disconnected" is caught by
  the earlier case: nothing is set and the responder is not called.
\<close>

theorem goaway_counterexample:
  "errors_Is (Some (abort_of goaway_short)) ErrAbortHandler
   \<and> Unwrap (abort_of goaway_short) = Some goaway_short
   \<and> Contains (Error goaway_short) ''server sent GOAWAY and closed the connection''
   \<and> w_header (writer (final (ErrorHandler (\<lambda>e. False) sample_request
        (Some (abort_of goaway_short)) sample_world))) ''Connection'' = None
   \<and> errors_Is (Some (abort_of goaway_gone)) ErrAbortHandler
   \<and> Unwrap (abort_of goaway_gone) = Some goaway_gone
   \<and> Contains (Error goaway_gone) ''server sent GOAWAY and closed the connection''
   \<and> w_header (writer (final (ErrorHandler (\<lambda>e. False) sample_request
        (Some (abort_of goaway_gone)) sample_world))) ''Connection'' = None
   \<and> responder_errors (trace (final (ErrorHandler (\<lambda>e. False) sample_request
        (Some (abort_of goaway_gone)) sample_world))) = []"
proof -
  have s1: "Contains (Error goaway_short) ''server sent GOAWAY and closed the connection''"
    by (simp add: goaway_short_def HasPrefix_def)
  have s2: "\<not> is_chain goaway_short Canceled"
    by (simp add: goaway_short_def Canceled_def)
  have s3: "\<not> Contains (Error goaway_short) ''client disconnected''"
    by (simp add: goaway_short_def HasPrefix_def)
  have s4: "\<not> Contains (Error goaway_short) ''http2: server sent GOAWAY and closed the connection''"
    by (simp add: goaway_short_def HasPrefix_def)
  have g1: "Contains (Error goaway_gone) ''server sent GOAWAY and closed the connection''"
    by (simp add: goaway_gone_def HasPrefix_def)
  have g2: "Contains (Error goaway_gone) ''client disconnected''"
    by (simp add: goaway_gone_def HasPrefix_def)
  have w0: "w_header (writer sample_world) ''Connection'' = None"
    by (simp add: sample_world_def)
  have t0: "responder_errors (trace sample_world) = []"
    by (simp add: sample_world_def)
  have short: "ErrorHandler (\<lambda>e. False) sample_request (Some (abort_of goaway_short)) sample_world =
      Responder_Error sample_request (Some goaway_short)
        (emit (Klog ErrorLevel) (refused_check (\<lambda>e. False) (Some (abort_of goaway_short)) sample_world))"
    by (rule ErrorHandler_other_abort [OF abort_of_is_abort errors_Unwrap_abort_of s2 s3 s4])
  have gone: "ErrorHandler (\<lambda>e. False) sample_request (Some (abort_of goaway_gone)) sample_world =
      Returned (emit (Klog (V 5)) (refused_check (\<lambda>e. False) (Some (abort_of goaway_gone)) sample_world))"
    by (rule ErrorHandler_suppress [OF abort_of_is_abort errors_Unwrap_abort_of disjI2 [OF g2]])
  have h1: "w_header (writer (final (ErrorHandler (\<lambda>e. False) sample_request
        (Some (abort_of goaway_short)) sample_world))) ''Connection'' = None"
    by (simp add: short w0)
  have h2: "w_header (writer (final (ErrorHandler (\<lambda>e. False) sample_request
        (Some (abort_of goaway_gone)) sample_world))) ''Connection'' = None"
    by (simp add: gone w0)
  have h3: "responder_errors (trace (final (ErrorHandler (\<lambda>e. False) sample_request
        (Some (abort_of goaway_gone)) sample_world))) = []"
    by (simp add: gone t0)
  from abort_of_is_abort Unwrap_abort_of s1 g1 h1 h2 h3 show ?thesis
    by (intro conjI)
qed

lemma bare_sentinel_is_abort: "errors_Is (Some ErrAbortHandler) ErrAbortHandler"
  by (simp add: errors_Is_def ErrAbortHandler_def)

lemma bare_sentinel_unwraps_nil: "errors_Unwrap (Some ErrAbortHandler) = None"
  by (simp add: ErrAbortHandler_def)

text \<open>
  C4. The claim asks that every error, the bare abort sentinel included, gets one of the
  four classifications without a fault. On \<^verbatim>\<open>http.ErrAbortHandler\<close> itself the code
  does not: \<^verbatim>\<open>errors.Unwrap\<close> gives nil, and the first case of the switch calls
  \<^verbatim>\<open>Error()\<close> on it. The call panics with a nil dereference after the refused-connection
  check; no branch is reached and the responder is never called.
\<close>

theorem bare_abort_sentinel_panics:
  "ErrorHandler IsConnectionRefused req (Some ErrAbortHandler) s =
     Panicked NilDereference (refused_check IsConnectionRefused (Some ErrAbortHandler) s)
   \<and> responder_errors (trace (final (ErrorHandler IsConnectionRefused req (Some ErrAbortHandler) s))) =
       responder_errors (trace s)"
proof -
  have "ErrorHandler IsConnectionRefused req (Some ErrAbortHandler) s =
     Panicked NilDereference (refused_check IsConnectionRefused (Some ErrAbortHandler) s)"
    by (rule ErrorHandler_nil_cause [OF bare_sentinel_is_abort bare_sentinel_unwraps_nil])
  then show ?thesis by simp
qed

lemma responder_errors_Responder_Error_any:
  "\<exists>xs. responder_errors (trace (final (Responder_Error req err s))) =
          responder_errors (trace s) @ xs \<and> set xs \<subseteq> {err}"
  by (simp add: Responder_Error_def split: option.splits)

text \<open>
  C10. With a responder supplied: an abort signal around a root cause that is not
  suppressed (the GOAWAY branch and the default branch) hands the responder the unwrapped
  root cause, once, and that is not the error the handler was given; an error that is not
  an abort signal reaches the responder as it is, once. No abort signal ever reaches the
  responder unchanged.
\<close>

theorem abort_root_cause_reaches_responder:
  "(errors_Is (Some e) ErrAbortHandler \<and> Unwrap e = Some r \<and> \<not> is_chain r Canceled
      \<and> \<not> Contains (Error r) ''client disconnected'' \<and> Responder (handler s) \<noteq> None
    \<longrightarrow> returned (ErrorHandler IsConnectionRefused req (Some e) s)
        \<and> responder_errors (trace (final (ErrorHandler IsConnectionRefused req (Some e) s))) =
            responder_errors (trace s) @ [Some r]
        \<and> Some r \<noteq> Some e)
   \<and> (\<not> errors_Is err ErrAbortHandler \<and> Responder (handler s) \<noteq> None
    \<longrightarrow> returned (ErrorHandler IsConnectionRefused req err s)
        \<and> responder_errors (trace (final (ErrorHandler IsConnectionRefused req err s))) =
            responder_errors (trace s) @ [err])
   \<and> (errors_Is err ErrAbortHandler
    \<longrightarrow> (\<exists>xs. responder_errors (trace (final (ErrorHandler IsConnectionRefused req err s))) =
                 responder_errors (trace s) @ xs \<and> err \<notin> set xs))"
proof (intro conjI impI)
  assume a: "errors_Is (Some e) ErrAbortHandler \<and> Unwrap e = Some r \<and> \<not> is_chain r Canceled
      \<and> \<not> Contains (Error r) ''client disconnected'' \<and> Responder (handler s) \<noteq> None"
  then obtain rp where rp: "Responder (handler s) = Some rp" by auto
  from a have u: "errors_Unwrap (Some e) = Some r" by simp
  let ?s1 = "refused_check IsConnectionRefused (Some e) s"
  have "\<exists>s2. ErrorHandler IsConnectionRefused req (Some e) s = Responder_Error req (Some r) s2
          \<and> Responder (handler s2) = Some rp
          \<and> responder_errors (trace s2) = responder_errors (trace s)"
  proof (cases "Contains (Error r) ''http2: server sent GOAWAY and closed the connection''")
    case True
    with a u have "ErrorHandler IsConnectionRefused req (Some e) s =
        Responder_Error req (Some r) (set_header ''Connection'' ''close'' (emit (Klog (V 4)) ?s1))"
      by (intro ErrorHandler_goaway) simp_all
    with rp show ?thesis
      by (intro exI [of _ "set_header ''Connection'' ''close'' (emit (Klog (V 4)) ?s1)"]) simp
  next
    case False
    with a u have "ErrorHandler IsConnectionRefused req (Some e) s =
        Responder_Error req (Some r) (emit (Klog ErrorLevel) ?s1)"
      by (intro ErrorHandler_other_abort) simp_all
    with rp show ?thesis
      by (intro exI [of _ "emit (Klog ErrorLevel) ?s1"]) simp
  qed
  then obtain s2 where s2: "ErrorHandler IsConnectionRefused req (Some e) s =
        Responder_Error req (Some r) s2" "Responder (handler s2) = Some rp"
        "responder_errors (trace s2) = responder_errors (trace s)"
    by blast
  show "returned (ErrorHandler IsConnectionRefused req (Some e) s)"
    using s2 by (simp add: returned_Responder_Error)
  show "responder_errors (trace (final (ErrorHandler IsConnectionRefused req (Some e) s))) =
          responder_errors (trace s) @ [Some r]"
    using s2 by (simp add: responder_errors_Responder_Error)
  show "Some r \<noteq> Some e"
    using a Unwrap_differs [of e r] by simp
next
  assume a: "\<not> errors_Is err ErrAbortHandler \<and> Responder (handler s) \<noteq> None"
  then obtain rp where rp: "Responder (handler (refused_check IsConnectionRefused err s)) = Some rp"
    by auto
  from a have eq: "ErrorHandler IsConnectionRefused req err s =
      Responder_Error req err (refused_check IsConnectionRefused err s)"
    by (simp add: ErrorHandler_not_abort)
  show "returned (ErrorHandler IsConnectionRefused req err s)"
    using rp by (simp add: eq returned_Responder_Error)
  show "responder_errors (trace (final (ErrorHandler IsConnectionRefused req err s))) =
          responder_errors (trace s) @ [err]"
    using rp by (simp add: eq responder_errors_Responder_Error)
next
  assume ab: "errors_Is err ErrAbortHandler"
  then obtain e where e: "err = Some e"
    by (cases err) (simp_all add: errors_Is_def)
  let ?s1 = "refused_check IsConnectionRefused err s"
  show "\<exists>xs. responder_errors (trace (final (ErrorHandler IsConnectionRefused req err s))) =
                 responder_errors (trace s) @ xs \<and> err \<notin> set xs"
  proof (cases "Unwrap e")
    case None
    with ab e have "ErrorHandler IsConnectionRefused req err s = Panicked NilDereference ?s1"
      by (intro ErrorHandler_nil_cause) simp_all
    then show ?thesis by simp
  next
    case (Some r)
    then have ne: "Some r \<noteq> err"
      using e Unwrap_differs [of e r] by simp
    from Some e have u: "errors_Unwrap err = Some r" by simp
    consider (sup) "is_chain r Canceled \<or> Contains (Error r) ''client disconnected''"
      | (goaway) "\<not> is_chain r Canceled" "\<not> Contains (Error r) ''client disconnected''"
          "Contains (Error r) ''http2: server sent GOAWAY and closed the connection''"
      | (other) "\<not> is_chain r Canceled" "\<not> Contains (Error r) ''client disconnected''"
          "\<not> Contains (Error r) ''http2: server sent GOAWAY and closed the connection''"
      by blast
    then show ?thesis
    proof cases
      case sup
      from ErrorHandler_suppress [OF ab u sup]
      show ?thesis by simp
    next
      case goaway
      from ErrorHandler_goaway [OF ab u goaway]
      have eq: "ErrorHandler IsConnectionRefused req err s = Responder_Error req (Some r)
          (set_header ''Connection'' ''close'' (emit (Klog (V 4)) ?s1))" .
      from responder_errors_Responder_Error_any
        [of req "Some r" "set_header ''Connection'' ''close'' (emit (Klog (V 4)) ?s1)"]
      obtain xs where "responder_errors (trace (final (ErrorHandler IsConnectionRefused req err s))) =
          responder_errors (trace s) @ xs" "set xs \<subseteq> {Some r}"
        unfolding eq by auto
      with ne show ?thesis by auto
    next
      case other
      from ErrorHandler_other_abort [OF ab u other]
      have eq: "ErrorHandler IsConnectionRefused req err s = Responder_Error req (Some r)
          (emit (Klog ErrorLevel) ?s1)" .
      from responder_errors_Responder_Error_any
        [of req "Some r" "emit (Klog ErrorLevel) ?s1"]
      obtain xs where "responder_errors (trace (final (ErrorHandler IsConnectionRefused req err s))) =
          responder_errors (trace s) @ xs" "set xs \<subseteq> {Some r}"
        unfolding eq by auto
      with ne show ?thesis by auto
    qed
  qed
qed

theorem abort_root_cause_reaches_responder_witness:
  "errors_Is (Some (abort_of reset)) ErrAbortHandler
   \<and> Unwrap (abort_of reset) = Some reset
   \<and> \<not> is_chain reset Canceled
   \<and> \<not> Contains (Error reset) ''client disconnected''
   \<and> Responder (handler sample_world) \<noteq> None
   \<and> responder_errors (trace (final (ErrorHandler (\<lambda>e. False) sample_request
         (Some (abort_of reset)) sample_world))) = [Some reset]
   \<and> Some (abort_of reset) \<notin> set (responder_errors (trace (final (ErrorHandler (\<lambda>e. False)
         sample_request (Some (abort_of reset)) sample_world))))
   \<and> \<not> errors_Is (Some reset) ErrAbortHandler
   \<and> responder_errors (trace (final (ErrorHandler (\<lambda>e. False) sample_request
         (Some reset) sample_world))) = [Some reset]"
proof -
  have a: "\<not> is_chain reset Canceled"
    by (simp add: reset_def Canceled_def)
  have b: "\<not> Contains (Error reset) ''client disconnected''"
    by (simp add: reset_def HasPrefix_def)
  have c: "Responder (handler sample_world) \<noteq> None"
    by (simp add: sample_world_def sample_handler_def)
  have d: "\<not> errors_Is (Some reset) ErrAbortHandler"
    by (simp add: errors_Is_def reset_def ErrAbortHandler_def)
  have t0: "responder_errors (trace sample_world) = []"
    by (simp add: sample_world_def)
  note t1 = abort_root_cause_reaches_responder
    [where e = "abort_of reset" and r = reset and s = sample_world
       and IsConnectionRefused = "\<lambda>e. False" and req = sample_request and err = "Some reset"]
  note t2 = abort_root_cause_reaches_responder
    [where e = "abort_of reset" and r = reset and s = sample_world
       and IsConnectionRefused = "\<lambda>e. False" and req = sample_request
       and err = "Some (abort_of reset)"]
  from t1 abort_of_is_abort [of reset] Unwrap_abort_of [of reset] a b c t0
  have h1: "responder_errors (trace (final (ErrorHandler (\<lambda>e. False) sample_request
         (Some (abort_of reset)) sample_world))) = [Some reset]"
    by simp
  from t1 c d t0
  have h2: "responder_errors (trace (final (ErrorHandler (\<lambda>e. False) sample_request
         (Some reset) sample_world))) = [Some reset]"
    by simp
  from t2 abort_of_is_abort [of reset] t0
  have h3: "Some (abort_of reset) \<notin> set (responder_errors (trace (final (ErrorHandler
         (\<lambda>e. False) sample_request (Some (abort_of reset)) sample_world))))"
    by auto
  from abort_of_is_abort Unwrap_abort_of a b c d h1 h2 h3 show ?thesis
    by (intro conjI)
qed

subsection \<open>The dispatcher\<close>

lemma redirect_eq:
  "redirect req s =
     s\<lparr>writer :=
         \<lparr>w_header = (w_header (writer s))
            (''Location'' \<mapsto> [Path (url req) @ ''/'' @
               (if RawQuery (url req) = [] then [] else ''?'' @ RawQuery (url req))]),
          WriteHeader_calls = WriteHeader_calls (writer s) @ [301]\<rparr>\<rparr>"
  by (simp add: redirect_def WriteHeader_def set_header_def Header_Set_def)

text \<open>
  C5, as amended. On a handler that is not configured upgrade-required, every
  non-upgrade request whose destination path (lines 68-75) is empty is answered with
  exactly this: the header Location set to the request path followed by "/", followed by
  "?" and the query string if and only if the query string is not empty, and one
  \<^verbatim>\<open>WriteHeader(301)\<close>. The call returns there: the handler keeps its transport, and
  neither the reverse proxy nor the responder is called.
\<close>

theorem empty_destination_redirects:
  assumes "\<not> IsUpgradeRequest req"
      and "\<not> UpgradeRequired (handler s)"
      and "Path (destination (handler s) req) = []"
  shows "ServeHTTP IsUpgradeRequest upgrade_ServeHTTP proxy_ServeHTTP req s =
           Returned
             (s\<lparr>writer :=
                 \<lparr>w_header = (w_header (writer s))
                    (''Location'' \<mapsto> [Path (url req) @ ''/'' @
                       (if RawQuery (url req) = [] then [] else ''?'' @ RawQuery (url req))]),
                  WriteHeader_calls = WriteHeader_calls (writer s) @ [301]\<rparr>\<rparr>)
       \<and> handler (final (ServeHTTP IsUpgradeRequest upgrade_ServeHTTP proxy_ServeHTTP req s)) =
           handler s
       \<and> trace (final (ServeHTTP IsUpgradeRequest upgrade_ServeHTTP proxy_ServeHTTP req s)) =
           trace s"
proof -
  have "ServeHTTP IsUpgradeRequest upgrade_ServeHTTP proxy_ServeHTTP req s =
          Returned (redirect req s)"
    using assms by (simp add: ServeHTTP_def)
  then show ?thesis
    by (simp add: redirect_eq)
qed

lemma sample_not_upgrade: "\<not> connection_upgrade sample_request"
  by (simp add: connection_upgrade_def sample_request_def)

lemma sample_destination_empty:
  "Path (destination (handler sample_world) sample_request) = []"
  by (simp add: destination_def sample_world_def sample_handler_def sample_request_def
      HasSuffix_def)

theorem empty_destination_redirects_witness:
  "\<not> connection_upgrade sample_request
   \<and> \<not> UpgradeRequired (handler sample_world)
   \<and> Path (destination (handler sample_world) sample_request) = []
   \<and> ServeHTTP connection_upgrade (\<lambda>r. Returned) (\<lambda>p r. Returned) sample_request sample_world =
       Returned
         (sample_world\<lparr>writer :=
            \<lparr>w_header = [''Location'' \<mapsto> [''/api/?watch=1'']], WriteHeader_calls = [301]\<rparr>\<rparr>)"
proof -
  have u: "\<not> UpgradeRequired (handler sample_world)"
    by (simp add: sample_world_def sample_handler_def)
  have w: "w_header (writer sample_world) = Map.empty"
          "WriteHeader_calls (writer sample_world) = []"
    by (simp_all add: sample_world_def)
  have q: "Path (url sample_request) = ''/api''" "RawQuery (url sample_request) = ''watch=1''"
    by (simp_all add: sample_request_def)
  note t = empty_destination_redirects
    [where IsUpgradeRequest = connection_upgrade and req = sample_request and s = sample_world
       and upgrade_ServeHTTP = "\<lambda>r. Returned" and proxy_ServeHTTP = "\<lambda>p r. Returned",
     OF sample_not_upgrade u sample_destination_empty]
  from t have "ServeHTTP connection_upgrade (\<lambda>r. Returned) (\<lambda>p r. Returned) sample_request
      sample_world =
       Returned
         (sample_world\<lparr>writer :=
            \<lparr>w_header = [''Location'' \<mapsto> [''/api/?watch=1'']], WriteHeader_calls = [301]\<rparr>\<rparr>)"
    by (simp add: w q)
  with sample_not_upgrade u sample_destination_empty show ?thesis
    by (intro conjI)
qed

text \<open>
  The claim as first stated leaves out the check of lines 63-66, which comes before the
  destination is looked at: an upgrade-required handler answers a non-upgrade request
  through the responder (bad request), whatever the destination path; no redirect is
  written.
\<close>

theorem empty_destination_counterexample:
  "\<not> connection_upgrade sample_request
   \<and> Path (destination (handler upgrade_only_world) sample_request) = []
   \<and> ServeHTTP connection_upgrade (\<lambda>r. Returned) (\<lambda>p r. Returned) sample_request
         upgrade_only_world =
       Returned
         (upgrade_only_world\<lparr>trace :=
            [ResponderError Map.empty sample_request
               (Some (NewBadRequest ''Upgrade request required''))]\<rparr>)
   \<and> WriteHeader_calls (writer (final (ServeHTTP connection_upgrade (\<lambda>r. Returned)
         (\<lambda>p r. Returned) sample_request upgrade_only_world))) = []
   \<and> w_header (writer (final (ServeHTTP connection_upgrade (\<lambda>r. Returned)
         (\<lambda>p r. Returned) sample_request upgrade_only_world))) ''Location'' = None"
proof -
  have d: "Path (destination (handler upgrade_only_world) sample_request) = []"
    by (simp add: destination_def upgrade_only_world_def sample_world_def sample_handler_def
        sample_request_def HasSuffix_def)
  have r: "ServeHTTP connection_upgrade (\<lambda>r. Returned) (\<lambda>p r. Returned) sample_request
         upgrade_only_world =
       Returned
         (upgrade_only_world\<lparr>trace :=
            [ResponderError Map.empty sample_request
               (Some (NewBadRequest ''Upgrade request required''))]\<rparr>)"
    using sample_not_upgrade
    by (simp add: ServeHTTP_def Responder_Error_def emit_def upgrade_only_world_def
        sample_world_def sample_handler_def)
  have c: "WriteHeader_calls (writer (final (ServeHTTP connection_upgrade (\<lambda>r. Returned)
         (\<lambda>p r. Returned) sample_request upgrade_only_world))) = []"
    by (simp add: r) (simp add: upgrade_only_world_def sample_world_def)
  have l: "w_header (writer (final (ServeHTTP connection_upgrade (\<lambda>r. Returned)
         (\<lambda>p r. Returned) sample_request upgrade_only_world))) ''Location'' = None"
    by (simp add: r) (simp add: upgrade_only_world_def sample_world_def)
  from sample_not_upgrade d r c l show ?thesis
    by (intro conjI)
qed

text \<open>
  C7. A request that satisfies the upgrade predicate is handed to the embedded upgrade
  handler, and the outcome of that call is the outcome of \<^verbatim>\<open>ServeHTTP\<close>. The embedded
  handler starts from the world as it was, with nothing but the delegation recorded: no
  bad-request check, no destination, no redirect, no transport built, no request cloned,
  no reverse proxy called.
\<close>

theorem upgrade_request_delegated:
  assumes "IsUpgradeRequest req"
  shows "ServeHTTP IsUpgradeRequest upgrade_ServeHTTP proxy_ServeHTTP req s =
           upgrade_ServeHTTP req (emit (UpgradeServeHTTP req) s)
       \<and> handler (emit (UpgradeServeHTTP req) s) = handler s
       \<and> writer (emit (UpgradeServeHTTP req) s) = writer s
       \<and> trace (emit (UpgradeServeHTTP req) s) = trace s @ [UpgradeServeHTTP req]"
  using assms by (simp add: ServeHTTP_def)

theorem upgrade_request_delegated_witness:
  "connection_upgrade upgrade_request
   \<and> ServeHTTP connection_upgrade (\<lambda>r. Returned) (\<lambda>p r. Panicked (PanicValue 0))
        upgrade_request upgrade_only_world =
       Returned (upgrade_only_world\<lparr>trace := [UpgradeServeHTTP upgrade_request]\<rparr>)"
proof -
  have u: "connection_upgrade upgrade_request"
    by (simp add: connection_upgrade_def upgrade_request_def)
  have e: "emit (UpgradeServeHTTP upgrade_request) upgrade_only_world =
           upgrade_only_world\<lparr>trace := [UpgradeServeHTTP upgrade_request]\<rparr>"
    by (simp add: emit_def upgrade_only_world_def sample_world_def)
  note t = upgrade_request_delegated
    [where IsUpgradeRequest = connection_upgrade and req = upgrade_request
       and s = upgrade_only_world and upgrade_ServeHTTP = "\<lambda>r. Returned"
       and proxy_ServeHTTP = "\<lambda>p r. Panicked (PanicValue 0)", OF u]
  from t e have "ServeHTTP connection_upgrade (\<lambda>r. Returned) (\<lambda>p r. Panicked (PanicValue 0))
        upgrade_request upgrade_only_world =
       Returned (upgrade_only_world\<lparr>trace := [UpgradeServeHTTP upgrade_request]\<rparr>)"
    by simp
  with u show ?thesis
    by (intro conjI)
qed

text \<open>
  C6, as amended. A panic of the reverse proxy, raised after the deferred function of
  lines 102-108 is in place, does not leave \<^verbatim>\<open>ServeHTTP\<close>: the call returns, whatever
  the panic value. When the value that \<^verbatim>\<open>recover()\<close> gives is not nil, the response header
  \<^verbatim>\<open>Connection: close\<close> is set, after a log line, on what the proxy had done up to the
  panic; after \<^verbatim>\<open>panic(nil)\<close> the call returns with that world as it is. The first
  three hypotheses say that the call gets as far as the reverse proxy.
\<close>

theorem proxy_panic_recovered:
  assumes "\<not> IsUpgradeRequest req"
      and "\<not> UpgradeRequired (handler s)"
      and "Path (destination (handler s) req) \<noteq> []"
      and "proxy_ServeHTTP (newProxy (handler (with_transport req s)))
             (newReq (handler (with_transport req s)) req)
             (emit (ProxyServeHTTP (newProxy (handler (with_transport req s)))
                      (newReq (handler (with_transport req s)) req))
                (with_transport req s)) = Panicked v s'"
  shows "returned (ServeHTTP IsUpgradeRequest upgrade_ServeHTTP proxy_ServeHTTP req s)
       \<and> (v \<noteq> PanicNil \<longrightarrow>
            ServeHTTP IsUpgradeRequest upgrade_ServeHTTP proxy_ServeHTTP req s =
              Returned (set_header ''Connection'' ''close'' (emit (Klog ErrorLevel) s'))
            \<and> w_header (writer (final (ServeHTTP IsUpgradeRequest upgrade_ServeHTTP
                 proxy_ServeHTTP req s))) ''Connection'' = Some [''close''])
       \<and> (v = PanicNil \<longrightarrow>
            ServeHTTP IsUpgradeRequest upgrade_ServeHTTP proxy_ServeHTTP req s = Returned s')"
proof -
  have eq: "ServeHTTP IsUpgradeRequest upgrade_ServeHTTP proxy_ServeHTTP req s =
      (case recover v of
         None \<Rightarrow> Returned s'
       | Some r \<Rightarrow> Returned (set_header ''Connection'' ''close'' (emit (Klog ErrorLevel) s')))"
    using assms by (simp add: ServeHTTP_def Let_def)
  show ?thesis
    by (simp add: eq recover_def Header_Set_def)
qed

lemma backend_destination:
  "Path (destination (handler backend_world) sample_request) \<noteq> []"
  by (simp add: destination_def backend_world_def sample_world_def sample_handler_def
      sample_request_def HasSuffix_def)

lemma backend_not_upgrade_required: "\<not> UpgradeRequired (handler backend_world)"
  by (simp add: backend_world_def sample_world_def sample_handler_def)

theorem proxy_panic_recovered_witness:
  "\<not> connection_upgrade sample_request
   \<and> \<not> UpgradeRequired (handler backend_world)
   \<and> Path (destination (handler backend_world) sample_request) \<noteq> []
   \<and> PanicValue 0 \<noteq> PanicNil
   \<and> returned (ServeHTTP connection_upgrade (\<lambda>r. Returned) (\<lambda>p r. Panicked (PanicValue 0))
        sample_request backend_world)
   \<and> w_header (writer (final (ServeHTTP connection_upgrade (\<lambda>r. Returned)
        (\<lambda>p r. Panicked (PanicValue 0)) sample_request backend_world))) ''Connection'' =
       Some [''close'']
   \<and> returned (ServeHTTP connection_upgrade (\<lambda>r. Returned) (\<lambda>p r. Panicked PanicNil)
        sample_request backend_world)"
proof -
  note t = proxy_panic_recovered
    [where IsUpgradeRequest = connection_upgrade and req = sample_request and s = backend_world
       and upgrade_ServeHTTP = "\<lambda>r. Returned"
       and proxy_ServeHTTP = "\<lambda>p r. Panicked (PanicValue 0)" and v = "PanicValue 0",
     OF sample_not_upgrade backend_not_upgrade_required backend_destination refl]
  note n = proxy_panic_recovered
    [where IsUpgradeRequest = connection_upgrade and req = sample_request and s = backend_world
       and upgrade_ServeHTTP = "\<lambda>r. Returned"
       and proxy_ServeHTTP = "\<lambda>p r. Panicked PanicNil" and v = PanicNil,
     OF sample_not_upgrade backend_not_upgrade_required backend_destination refl]
  have d: "PanicValue 0 \<noteq> PanicNil"
    by simp
  from t have r: "returned (ServeHTTP connection_upgrade (\<lambda>r. Returned)
        (\<lambda>p r. Panicked (PanicValue 0)) sample_request backend_world)"
    by blast
  from t d have c: "w_header (writer (final (ServeHTTP connection_upgrade (\<lambda>r. Returned)
        (\<lambda>p r. Panicked (PanicValue 0)) sample_request backend_world))) ''Connection'' =
       Some [''close'']"
    by blast
  from n have r': "returned (ServeHTTP connection_upgrade (\<lambda>r. Returned)
        (\<lambda>p r. Panicked PanicNil) sample_request backend_world)"
    by blast
  from sample_not_upgrade backend_not_upgrade_required backend_destination d r c r'
  show ?thesis
    by (intro conjI)
qed

text \<open>
  The claim as first stated promises the header for every panic. After \<^verbatim>\<open>panic(nil)\<close>
  the test \<^verbatim>\<open>r != nil\<close> of line 103 fails: the panic is over, and the header is not set.
\<close>

theorem nil_panic_counterexample:
  "\<not> connection_upgrade sample_request
   \<and> \<not> UpgradeRequired (handler backend_world)
   \<and> Path (destination (handler backend_world) sample_request) \<noteq> []
   \<and> returned (ServeHTTP connection_upgrade (\<lambda>r. Returned) (\<lambda>p r. Panicked PanicNil)
        sample_request backend_world)
   \<and> w_header (writer (final (ServeHTTP connection_upgrade (\<lambda>r. Returned)
        (\<lambda>p r. Panicked PanicNil) sample_request backend_world))) ''Connection'' = None"
proof -
  have eq: "ServeHTTP connection_upgrade (\<lambda>r. Returned) (\<lambda>p r. Panicked PanicNil)
        sample_request backend_world =
      Returned (emit (ProxyServeHTTP (newProxy (handler (with_transport sample_request backend_world)))
                      (newReq (handler (with_transport sample_request backend_world)) sample_request))
                (with_transport sample_request backend_world))"
    using sample_not_upgrade backend_not_upgrade_required backend_destination
    by (simp add: ServeHTTP_def Let_def recover_def)
  have w: "w_header (writer (with_transport sample_request backend_world)) ''Connection'' = None"
    by (simp add: with_transport_def Let_def backend_world_def sample_world_def)
  have r: "returned (ServeHTTP connection_upgrade (\<lambda>r. Returned) (\<lambda>p r. Panicked PanicNil)
        sample_request backend_world)"
    by (simp add: eq)
  have c: "w_header (writer (final (ServeHTTP connection_upgrade (\<lambda>r. Returned)
        (\<lambda>p r. Panicked PanicNil) sample_request backend_world))) ''Connection'' = None"
    by (simp add: eq w)
  from sample_not_upgrade backend_not_upgrade_required backend_destination r c show ?thesis
    by (intro conjI)
qed

subsection \<open>The transports\<close>

text \<open>
  C9. When the inner round tripper answers with a response and no error, the response
  comes back with the keys Access-Control-Allow-Credentials, Access-Control-Allow-Headers,
  Access-Control-Allow-Methods and Access-Control-Allow-Origin gone from its header and
  every other key, and the rest of the response, as it was. When the inner round tripper
  answers with an error, that error comes back as it is, with no response.
\<close>

theorem cors_headers_stripped:
  "(inner req = (Some resp, None) \<longrightarrow>
      RoundTrip inner req =
        Inr (Some (resp\<lparr>resp_header := (\<lambda>k.
               if k \<in> {''Access-Control-Allow-Credentials'', ''Access-Control-Allow-Headers'',
                        ''Access-Control-Allow-Methods'', ''Access-Control-Allow-Origin''}
               then None else resp_header resp k)\<rparr>), None))
   \<and> (inner req = (r, Some err) \<longrightarrow> RoundTrip inner req = Inr (None, Some err))"
proof (intro conjI impI)
  assume "inner req = (Some resp, None)"
  moreover have "removeCORSHeaders resp =
      resp\<lparr>resp_header := (\<lambda>k.
               if k \<in> {''Access-Control-Allow-Credentials'', ''Access-Control-Allow-Headers'',
                        ''Access-Control-Allow-Methods'', ''Access-Control-Allow-Origin''}
               then None else resp_header resp k)\<rparr>"
    unfolding removeCORSHeaders_def Header_Del_def
    by (rule arg_cong [where f = "\<lambda>h. resp\<lparr>resp_header := h\<rparr>"]) (rule ext, simp)
  ultimately show "RoundTrip inner req =
        Inr (Some (resp\<lparr>resp_header := (\<lambda>k.
               if k \<in> {''Access-Control-Allow-Credentials'', ''Access-Control-Allow-Headers'',
                        ''Access-Control-Allow-Methods'', ''Access-Control-Allow-Origin''}
               then None else resp_header resp k)\<rparr>), None)"
    by (simp add: RoundTrip_def)
next
  assume "inner req = (r, Some err)"
  then show "RoundTrip inner req = Inr (None, Some err)"
    by (simp add: RoundTrip_def)
qed

theorem cors_headers_stripped_witness:
  "(\<lambda>r. (Some sample_response, None)) sample_request = (Some sample_response, None)
   \<and> RoundTrip (\<lambda>r. (Some sample_response, None)) sample_request =
       Inr (Some \<lparr>StatusCode = 200,
                  resp_header = [''Content-Type'' \<mapsto> [''application/json'']]\<rparr>, None)
   \<and> (\<lambda>r. (Some sample_response, Some refused)) sample_request =
       (Some sample_response, Some refused)
   \<and> RoundTrip (\<lambda>r. (Some sample_response, Some refused)) sample_request =
       Inr (None, Some refused)"
proof -
  note t1 = cors_headers_stripped
    [where inner = "\<lambda>r. (Some sample_response, None)" and req = sample_request
       and resp = sample_response and r = None and err = refused]
  note t2 = cors_headers_stripped
    [where inner = "\<lambda>r. (Some sample_response, Some refused)" and req = sample_request
       and resp = sample_response and r = "Some sample_response" and err = refused]
  have e: "sample_response\<lparr>resp_header := (\<lambda>k.
               if k \<in> {''Access-Control-Allow-Credentials'', ''Access-Control-Allow-Headers'',
                        ''Access-Control-Allow-Methods'', ''Access-Control-Allow-Origin''}
               then None else resp_header sample_response k)\<rparr> =
           \<lparr>StatusCode = 200, resp_header = [''Content-Type'' \<mapsto> [''application/json'']]\<rparr>"
    unfolding sample_response_def by (simp add: fun_eq_iff)
  from t1 have "RoundTrip (\<lambda>r. (Some sample_response, None)) sample_request =
      Inr (Some (sample_response\<lparr>resp_header := (\<lambda>k.
               if k \<in> {''Access-Control-Allow-Credentials'', ''Access-Control-Allow-Headers'',
                        ''Access-Control-Allow-Methods'', ''Access-Control-Allow-Origin''}
               then None else resp_header sample_response k)\<rparr>), None)"
    by simp
  then have h1: "RoundTrip (\<lambda>r. (Some sample_response, None)) sample_request =
       Inr (Some \<lparr>StatusCode = 200,
                  resp_header = [''Content-Type'' \<mapsto> [''application/json'']]\<rparr>, None)"
    by (simp only: e)
  from t2 have h2: "RoundTrip (\<lambda>r. (Some sample_response, Some refused)) sample_request =
       Inr (None, Some refused)"
    by simp
  from h1 h2 show ?thesis
    by simp
qed

text \<open>
  The prepend of \<^verbatim>\<open>defaultProxyTransport\<close>: the path of the request URL with the base
  path of the backend location cut from its end, where the base path gets a "/" appended
  first when the request path ends in "/" and the base path does not. A request path that
  does not end in the base path is kept whole. What \<^verbatim>\<open>proxy.Transport\<close> then does
  with its PathPrepend is apimachinery's.
\<close>

lemma HasSuffix_iff_suffix: "HasSuffix s suf \<longleftrightarrow> suffix suf s"
proof
  assume "HasSuffix s suf"
  then have "s = take (length s - length suf) s @ suf"
    unfolding HasSuffix_def by (metis append_take_drop_id)
  then show "suffix suf s"
    by (rule suffixI)
next
  assume "suffix suf s"
  then obtain p where "s = p @ suf" by (auto simp: suffix_def)
  then show "HasSuffix s suf"
    by (simp add: HasSuffix_def)
qed

lemma TrimSuffix_append: "TrimSuffix (p @ suf) suf = p"
  by (simp add: TrimSuffix_def HasSuffix_def)

lemma TrimSuffix_no_suffix: "\<not> suffix suf s \<Longrightarrow> TrimSuffix s suf = s"
  by (simp add: TrimSuffix_def HasSuffix_iff_suffix)

lemma defaultProxyTransport_prepend:
  "\<exists>prepend. defaultProxyTransport h u inner =
       CorsRemovingTransport (ProxyTransport (Scheme u) (Host u) prepend inner)
     \<and> (let base = (if suffix ''/'' (Path u) \<and> \<not> suffix ''/'' (Path (Location h))
                     then Path (Location h) @ ''/'' else Path (Location h))
        in if suffix base (Path u) then prepend @ base = Path u else prepend = Path u)"
  by (auto simp: defaultProxyTransport_def Let_def HasSuffix_iff_suffix TrimSuffix_no_suffix
      TrimSuffix_append elim!: suffixE)

lemma defaultProxyTransport_example:
  "defaultProxyTransport (handler backend_world)
     \<lparr>Scheme = ''https'', Host = ''gateway'', Path = ''/proxy/api/v1/'', RawQuery = []\<rparr> None =
   CorsRemovingTransport (ProxyTransport ''https'' ''gateway'' ''/proxy'' None)"
  by (simp add: defaultProxyTransport_def backend_world_def sample_world_def sample_handler_def
      HasSuffix_def TrimSuffix_def)

end
